theory Spec2Isabelle
  imports Complex_Main
begin

section \<open>The Box component (src/src/App.js, lines 192--222)\<close>

text \<open>
  \<^verbatim>\<open>
  const Box = () => {
    const [hover, setHover] = useState(false);
    const [active, setActive] = useState(false);
    const props = useSpring({
      scale: active ? [1.5, 1.5, 1.5] : [1, 1, 1],
      color: hover ? 'red': 'gray',
    });
    return ( <a.mesh onPointerOver={() => setHover(true)}
                     onPointerOut={() => setHover(false)}
                     onClick={() => setActive(!active)}
                     scale={props.scale} castShadow> ... )
  }
  \<close>
  The two \<open>useState\<close> cells are the fields of a record, the three handlers are the
  cases of one step function, and the object handed to \<open>useSpring\<close> is the record of
  targets computed from the state of the current render.
\<close>

record InteractionState =
  hover :: bool
  active :: bool

definition Box_initial :: InteractionState where
  "Box_initial = \<lparr>hover = False, active = False\<rparr>"

datatype pointer_event = PointerOver | PointerOut | Click

fun Box_handle :: "pointer_event \<Rightarrow> InteractionState \<Rightarrow> InteractionState" where
  "Box_handle PointerOver s = s\<lparr>hover := True\<rparr>"
| "Box_handle PointerOut s = s\<lparr>hover := False\<rparr>"
| "Box_handle Click s = s\<lparr>active := \<not> active s\<rparr>"

record spring_targets =
  scale :: "real list"
  color :: string

definition Box_useSpring :: "InteractionState \<Rightarrow> spring_targets" where
  "Box_useSpring s =
     \<lparr>scale = (if active s then [1.5, 1.5, 1.5] else [1, 1, 1]),
      color = (if hover s then ''red'' else ''gray'')\<rparr>"

text \<open>
  A run of the component is a list of frames; each frame carries the pointer events
  delivered since the previous frame, in order. \<open>Box_frames\<close> gives the state that each
  frame renders with.
\<close>

fun Box_frames :: "pointer_event list list \<Rightarrow> InteractionState \<Rightarrow> InteractionState list" where
  "Box_frames [] s = []"
| "Box_frames (evs # fs) s = fold Box_handle evs s # Box_frames fs (fold Box_handle evs s)"

definition is_hover_event :: "pointer_event \<Rightarrow> bool" where
  "is_hover_event e = (e = PointerOver \<or> e = PointerOut)"

definition is_click_event :: "pointer_event \<Rightarrow> bool" where
  "is_click_event e = (e = Click)"

definition color_targets :: "pointer_event list list \<Rightarrow> InteractionState \<Rightarrow> string list" where
  "color_targets fs s = map (\<lambda>t. color (Box_useSpring t)) (Box_frames fs s)"

definition scale_targets :: "pointer_event list list \<Rightarrow> InteractionState \<Rightarrow> real list list" where
  "scale_targets fs s = map (\<lambda>t. scale (Box_useSpring t)) (Box_frames fs s)"


section \<open>The ShibaGLTF component (src/src/App.js, lines 224--236)\<close>

text \<open>
  \<^verbatim>\<open>
  const ShibaGLTF = () => {
    const [model, setModel] = useState()
    useEffect(() => {
      new GLTFLoader().load('/scene.gltf', setModel);
    }, []);
    return model ? <primitive object={model.scene} /> : null
  }
  \<close>
  The loaded fragment is a type variable \<open>'f\<close>: the component never looks inside it.
  The object handed to the success callback is read through its \<open>scene\<close> field only.
\<close>

datatype 'f gltf = GLTF (scene: 'f)

datatype load_error = AssetLoadError | AssetParseError

datatype 'f outcome = Loaded "'f gltf" | LoadFailed load_error

datatype 'f callback = OnLoad "'f gltf" | OnError load_error

text \<open>
  Modelled from the spec: the asset loader (the engine's \<open>GLTFLoader\<close>, no part of
  src/) settles a load request once, "exactly one resolution ever occurs per handle"
  (section 4.2). \<open>pending\<close> counts the requests issued and not yet settled. With nothing
  pending an outcome is dropped. Otherwise a success is handed to the success callback,
  and a failure to the error callback if the caller passed one.
\<close>

definition GLTFLoader_settle :: "bool \<Rightarrow> nat \<Rightarrow> 'f outcome \<Rightarrow> 'f callback option \<times> nat" where
  "GLTFLoader_settle has_onError pending out =
     (if pending = 0 then (None, 0)
      else ((case out of
               Loaded g \<Rightarrow> Some (OnLoad g)
             | LoadFailed e \<Rightarrow> (if has_onError then Some (OnError e) else None)),
            pending - 1))"

text \<open>
  The state of one mounted instance: the \<open>useState\<close> cell \<open>model\<close> (undefined until
  \<open>setModel\<close> runs), the dependency list of the effect as last committed (\<open>None\<close>
  before the first render), the urls passed to \<open>load\<close> so far, and the number of those
  requests still in flight.
\<close>

record 'f ShibaGLTF_state =
  model :: "'f gltf option"
  committed_deps :: "string list option"
  requests :: "string list"
  in_flight :: nat

definition ShibaGLTF_initial :: "'f ShibaGLTF_state" where
  "ShibaGLTF_initial = \<lparr>model = None, committed_deps = None, requests = [], in_flight = 0\<rparr>"

text \<open>
  \<open>useEffect(f, deps)\<close> runs \<open>f\<close> after the first render and after a later render
  only when \<open>deps\<close> differs from the list of the previous render.
\<close>

definition effect_due :: "string list option \<Rightarrow> string list \<Rightarrow> bool" where
  "effect_due prev next = (case prev of None \<Rightarrow> True | Some d \<Rightarrow> d \<noteq> next)"

definition ShibaGLTF_deps :: "string list" where
  "ShibaGLTF_deps = []"

definition ShibaGLTF_commit :: "'f ShibaGLTF_state \<Rightarrow> 'f ShibaGLTF_state" where
  "ShibaGLTF_commit s =
     (if effect_due (committed_deps s) ShibaGLTF_deps
      then s\<lparr>committed_deps := Some ShibaGLTF_deps,
             requests := requests s @ [''/scene.gltf''],
             in_flight := Suc (in_flight s)\<rparr>
      else s)"

datatype 'f shiba_event = Render | Settle "'f outcome"

text \<open>
  \<open>load('/scene.gltf', setModel)\<close> passes the success callback only, so the loader is
  settled with no error callback. \<open>setModel\<close> writes the cell and React renders the
  instance again.
\<close>

fun ShibaGLTF_step :: "'f shiba_event \<Rightarrow> 'f ShibaGLTF_state \<Rightarrow> 'f ShibaGLTF_state" where
  "ShibaGLTF_step Render s = ShibaGLTF_commit s"
| "ShibaGLTF_step (Settle out) s =
     (case GLTFLoader_settle False (in_flight s) out of
        (Some (OnLoad g), n) \<Rightarrow> ShibaGLTF_commit (s\<lparr>model := Some g, in_flight := n\<rparr>)
      | (_, n) \<Rightarrow> s\<lparr>in_flight := n\<rparr>)"

definition ShibaGLTF_run :: "'f shiba_event list \<Rightarrow> 'f ShibaGLTF_state" where
  "ShibaGLTF_run es = fold ShibaGLTF_step es ShibaGLTF_initial"

fun ShibaGLTF_trace :: "'f shiba_event list \<Rightarrow> 'f ShibaGLTF_state \<Rightarrow> 'f ShibaGLTF_state list" where
  "ShibaGLTF_trace [] s = []"
| "ShibaGLTF_trace (e # es) s = ShibaGLTF_step e s # ShibaGLTF_trace es (ShibaGLTF_step e s)"

text \<open>The number of places where a sequence of values changes.\<close>

fun transitions :: "'a list \<Rightarrow> nat" where
  "transitions (x # y # zs) = (if x \<noteq> y then 1 else 0) + transitions (y # zs)"
| "transitions [x] = 0"
| "transitions [] = 0"

text \<open>Several instances: each event goes to the instance it names.\<close>

definition instances_step ::
  "nat \<times> 'f shiba_event \<Rightarrow> (nat \<Rightarrow> 'f ShibaGLTF_state) \<Rightarrow> (nat \<Rightarrow> 'f ShibaGLTF_state)" where
  "instances_step ie \<sigma> = \<sigma>(fst ie := ShibaGLTF_step (snd ie) (\<sigma> (fst ie)))"

definition instances_run :: "(nat \<times> 'f shiba_event) list \<Rightarrow> nat \<Rightarrow> 'f ShibaGLTF_state" where
  "instances_run es = fold instances_step es (\<lambda>i. ShibaGLTF_initial)"


text \<open>
  What holds of every state an instance reaches: before the first render nothing was
  requested; afterwards exactly one request was issued, and it is either settled or
  still in flight with the cell unset.
\<close>

definition ShibaGLTF_inv :: "'f ShibaGLTF_state \<Rightarrow> bool" where
  "ShibaGLTF_inv s =
     ((committed_deps s = None \<and> requests s = [] \<and> in_flight s = 0 \<and> model s = None) \<or>
      (committed_deps s = Some [] \<and> requests s = [''/scene.gltf''] \<and>
         (in_flight s = 0 \<or> (in_flight s = 1 \<and> model s = None))))"


section \<open>The scene tree (src/src/App.js, lines 184--189 and 238--274)\<close>

text \<open>
  A JSX element is a node with its props. A boolean prop that is written is \<open>True\<close>,
  one that is left out keeps the engine's default \<open>False\<close>. A prop that is left out
  otherwise is \<open>None\<close>.
\<close>

datatype geometry = BoxBufferGeometry "real list" | PlaneBufferGeometry "real list"

datatype material = MeshPhysicalMaterial string

record mesh_props =
  rotation :: "real list option"
  position :: "real list option"
  scale_prop :: "real list option"
  castShadow :: bool
  receiveShadow :: bool

datatype 'f node =
    Mesh mesh_props geometry material
  | Fog string real real
  | AmbientLight real
  | SpotLight "real list" real bool
  | OrbitControlsNode bool real real
  | Primitive 'f
  | Group "'f node list"

definition Plane :: "'f node" where
  "Plane = Mesh \<lparr>rotation = Some [- pi / 2, 0, 0], position = Some [0, - 0.5, 0],
                 scale_prop = None, castShadow = False, receiveShadow = True\<rparr>
             (PlaneBufferGeometry [100, 100]) (MeshPhysicalMaterial ''#f4f4f4'')"

definition PlaneGLTF :: "'f node" where
  "PlaneGLTF = Mesh \<lparr>rotation = Some [- pi / 2, 0, 0], position = Some [0, - 1, 0],
                     scale_prop = None, castShadow = False, receiveShadow = True\<rparr>
                 (PlaneBufferGeometry [100, 100]) (MeshPhysicalMaterial ''#f4f4f4'')"

text \<open>
  \<open>Box_render\<close> takes the current values of the two animated props, \<open>props.scale\<close> and
  \<open>props.color\<close>.
\<close>

definition Box_render :: "real list \<Rightarrow> string \<Rightarrow> 'f node" where
  "Box_render sc col =
     Mesh \<lparr>rotation = None, position = None, scale_prop = Some sc,
           castShadow = True, receiveShadow = False\<rparr>
       (BoxBufferGeometry [1, 1, 1]) (MeshPhysicalMaterial col)"

definition ShibaGLTF_view :: "'f gltf option \<Rightarrow> 'f node option" where
  "ShibaGLTF_view m = (case m of Some g \<Rightarrow> Some (Primitive (scene g)) | None \<Rightarrow> None)"

definition ShibaGLTF_render :: "'f ShibaGLTF_state \<Rightarrow> 'f node option" where
  "ShibaGLTF_render s = ShibaGLTF_view (model s)"

definition Controls_render :: "'f node" where
  "Controls_render = OrbitControlsNode True (pi / 3) (pi / 3)"

text \<open>A component that returns \<open>null\<close> adds no child to its parent.\<close>

definition children_of :: "'f node option \<Rightarrow> 'f node list" where
  "children_of r = (case r of None \<Rightarrow> [] | Some n \<Rightarrow> [n])"

definition App_group :: "'f ShibaGLTF_state \<Rightarrow> 'f node" where
  "App_group s = Group (PlaneGLTF # children_of (ShibaGLTF_render s))"

definition App_scene :: "'f ShibaGLTF_state \<Rightarrow> 'f node list" where
  "App_scene s =
     [Fog ''#666'' 10 25, AmbientLight 0.5, SpotLight [0, 5, 10] 1 True, Controls_render,
      App_group s]"

text \<open>
  The second group of the source, which the comment there says to swap in for the first.
\<close>

definition App_scene_box :: "real list \<Rightarrow> string \<Rightarrow> 'f node list" where
  "App_scene_box sc col =
     [Fog ''#666'' 10 25, AmbientLight 0.5, SpotLight [0, 5, 10] 1 True, Controls_render,
      Group [Plane, Box_render sc col]]"


section \<open>The draw step\<close>

text \<open>
  The shadow flags a node declares. A loaded fragment declares none in the tree; its own
  flags are those of the asset, read by \<open>fc\<close> and \<open>fr\<close>.
\<close>

fun casts :: "('f \<Rightarrow> bool) \<Rightarrow> 'f node \<Rightarrow> bool" where
  "casts fc (Mesh p g m) = castShadow p"
| "casts fc (SpotLight pos pen c) = c"
| "casts fc (Primitive f) = fc f"
| "casts fc (Fog c near far) = False"
| "casts fc (AmbientLight i) = False"
| "casts fc (OrbitControlsNode a lo hi) = False"
| "casts fc (Group cs) = False"

fun receives :: "('f \<Rightarrow> bool) \<Rightarrow> 'f node \<Rightarrow> bool" where
  "receives fr (Mesh p g m) = receiveShadow p"
| "receives fr (Primitive f) = fr f"
| "receives fr (SpotLight pos pen c) = False"
| "receives fr (Fog c near far) = False"
| "receives fr (AmbientLight i) = False"
| "receives fr (OrbitControlsNode a lo hi) = False"
| "receives fr (Group cs) = False"

text \<open>
  Modelled from the spec: the draw step belongs to the engine and is no part of src/.
  Section 4.4 has a group route its children only and keep their order, so the nodes
  drawn are the leaves of the tree in order. A node takes part in the shadow-map pass
  when it casts, and is drawn shadowed when it receives and some occluder casts.
\<close>

fun draw_list :: "'f node \<Rightarrow> 'f node list" where
  "draw_list (Group cs) = concat (map draw_list cs)"
| "draw_list (Mesh p g m) = [Mesh p g m]"
| "draw_list (Fog c near far) = [Fog c near far]"
| "draw_list (AmbientLight i) = [AmbientLight i]"
| "draw_list (SpotLight pos pen c) = [SpotLight pos pen c]"
| "draw_list (OrbitControlsNode a lo hi) = [OrbitControlsNode a lo hi]"
| "draw_list (Primitive f) = [Primitive f]"

definition draw_scene :: "'f node list \<Rightarrow> 'f node list" where
  "draw_scene ns = concat (map draw_list ns)"

definition shadow_map_pass :: "('f \<Rightarrow> bool) \<Rightarrow> 'f node list \<Rightarrow> 'f node list" where
  "shadow_map_pass fc ns = filter (casts fc) (draw_scene ns)"

definition drawn_shadowed ::
  "('f \<Rightarrow> bool) \<Rightarrow> ('f \<Rightarrow> bool) \<Rightarrow> 'f node \<Rightarrow> 'f node list \<Rightarrow> bool" where
  "drawn_shadowed fr fc n occluders = (receives fr n \<and> list_ex (casts fc) occluders)"


section \<open>The Controls component (src/src/App.js, lines 151--178)\<close>

datatype rig_mode = Idle | Dragging | AutoRotating

record CameraState =
  polarAngle :: real
  azimuthalAngle :: real
  minPolarAngle :: real
  maxPolarAngle :: real
  autoRotate :: bool
  autoRotateStep :: real
  mode :: rig_mode
  dragPolar :: real
  dragAzimuth :: real

datatype pointer_input = PointerDown | PointerMove real real | PointerUp

definition clamp_angle :: "real \<Rightarrow> real \<Rightarrow> real \<Rightarrow> real" where
  "clamp_angle lo hi x = max lo (min hi x)"

text \<open>
  Modelled from the spec: the camera rig controller is the engine's \<open>OrbitControls\<close>,
  no part of src/. Section 4.3: pointer-down enters Dragging, where pointer movement
  accumulates delta angles; pointer-up leaves to AutoRotating or Idle by configuration.
  Section 5: the deltas are buffered and applied at the next tick.
\<close>

fun rig_input :: "pointer_input \<Rightarrow> CameraState \<Rightarrow> CameraState" where
  "rig_input PointerDown c = c\<lparr>mode := Dragging\<rparr>"
| "rig_input (PointerMove da dp) c =
     (if mode c = Dragging
      then c\<lparr>dragAzimuth := dragAzimuth c + da, dragPolar := dragPolar c + dp\<rparr>
      else c)"
| "rig_input PointerUp c = c\<lparr>mode := (if autoRotate c then AutoRotating else Idle)\<rparr>"

text \<open>
  Modelled from the spec: \<open>update\<close> of the engine's \<open>OrbitControls\<close>, the tick of
  section 4.3. It applies the buffered drag deltas, advances the azimuthal angle by the
  fixed increment while AutoRotating, and clamps the polar angle to
  \<open>[minPolarAngle, maxPolarAngle]\<close>.
\<close>

definition tick :: "CameraState \<Rightarrow> CameraState" where
  "tick c =
     c\<lparr>azimuthalAngle :=
         azimuthalAngle c + dragAzimuth c
           + (if mode c = AutoRotating then autoRotateStep c else 0),
       polarAngle := clamp_angle (minPolarAngle c) (maxPolarAngle c) (polarAngle c + dragPolar c),
       dragAzimuth := 0,
       dragPolar := 0\<rparr>"

text \<open>
  \<^verbatim>\<open>
  useFrame(() => { ref.current.update(); });
  return ( <orbitControls autoRotate minPolarAngle={Math.PI / 3}
                          maxPolarAngle={Math.PI / 3} ref={ref} ... /> );
  \<close>
  The component fixes the three props; the camera's angles at mount and the size of the
  auto-rotation increment are the engine's and stay parameters.
\<close>

definition Controls_rig :: "real \<Rightarrow> real \<Rightarrow> real \<Rightarrow> CameraState" where
  "Controls_rig polar0 azimuth0 step =
     \<lparr>polarAngle = polar0, azimuthalAngle = azimuth0,
      minPolarAngle = pi / 3, maxPolarAngle = pi / 3,
      autoRotate = True, autoRotateStep = step, mode = AutoRotating,
      dragPolar = 0, dragAzimuth = 0\<rparr>"

definition Controls_useFrame :: "CameraState \<Rightarrow> CameraState" where
  "Controls_useFrame c = tick c"

text \<open>
  A run is a list of frames; each frame carries the pointer input delivered since the
  previous frame and ends with the frame callback. \<open>Controls_frames\<close> lists the camera
  state after each frame.
\<close>

fun Controls_frames :: "pointer_input list list \<Rightarrow> CameraState \<Rightarrow> CameraState list" where
  "Controls_frames [] c = []"
| "Controls_frames (ins # fs) c =
     Controls_useFrame (fold rig_input ins c)
       # Controls_frames fs (Controls_useFrame (fold rig_input ins c))"



section \<open>The frame loop\<close>

text \<open>
  Reading a property of \<open>undefined\<close> throws a TypeError. The component reads
  \<open>model.scene\<close> only in the branch of the conditional where \<open>model\<close> is set, so
  \<open>ShibaGLTF_return\<close> is the return expression of the component with that read made
  fallible.
\<close>

datatype js_error = TypeError

definition read_scene :: "'f gltf option \<Rightarrow> js_error + 'f" where
  "read_scene m = (case m of None \<Rightarrow> Inl TypeError | Some g \<Rightarrow> Inr (scene g))"

definition ShibaGLTF_return :: "'f gltf option \<Rightarrow> js_error + 'f node option" where
  "ShibaGLTF_return m =
     (if m \<noteq> None
      then (case read_scene m of Inl e \<Rightarrow> Inl e | Inr f \<Rightarrow> Inr (Some (Primitive f)))
      else Inr None)"

text \<open>Rendering the tree of \<open>App\<close> fails when a component in it throws.\<close>

definition App_render :: "'f ShibaGLTF_state \<Rightarrow> js_error + 'f node list" where
  "App_render s =
     (case ShibaGLTF_return (model s) of
        Inl e \<Rightarrow> Inl e
      | Inr r \<Rightarrow>
          Inr [Fog ''#666'' 10 25, AmbientLight 0.5, SpotLight [0, 5, 10] 1 True, Controls_render,
               Group (PlaneGLTF # children_of r)])"

record 'f App_state =
  shiba :: "'f ShibaGLTF_state"
  camera :: CameraState
  drawn :: "'f node list list"

definition App_initial :: "CameraState \<Rightarrow> 'f App_state" where
  "App_initial c = \<lparr>shiba = ShibaGLTF_initial, camera = c, drawn = []\<rparr>"

text \<open>
  Modelled from the spec: the frame scheduler is the engine's canvas loop, no part of
  src/. Section 4.5: each frame invokes the camera rig tick, then reconciles the scene
  graph and draws it; section 5: pointer input and the loader's result are taken up at
  the frame boundary. A frame carries the pointer input and the component events that
  arrived since the previous one. An error thrown while rendering halts the loop; a
  frame that is drawn appends its draw list to \<open>drawn\<close>.
\<close>

definition App_frame ::
  "pointer_input list \<times> 'f shiba_event list \<Rightarrow> 'f App_state \<Rightarrow> js_error + 'f App_state" where
  "App_frame f st =
     (let sh = fold ShibaGLTF_step (snd f) (shiba st);
          cam = Controls_useFrame (fold rig_input (fst f) (camera st))
      in case App_render sh of
           Inl e \<Rightarrow> Inl e
         | Inr tree \<Rightarrow> Inr \<lparr>shiba = sh, camera = cam, drawn = drawn st @ [draw_scene tree]\<rparr>)"

fun Frame_Scheduler ::
  "(pointer_input list \<times> 'f shiba_event list) list \<Rightarrow> 'f App_state \<Rightarrow> js_error + 'f App_state" where
  "Frame_Scheduler [] st = Inr st"
| "Frame_Scheduler (f # fs) st =
     (case App_frame f st of Inl e \<Rightarrow> Inl e | Inr st' \<Rightarrow> Frame_Scheduler fs st')"

text \<open>What is drawn of the scene when the asset subtree is omitted.\<close>

definition fallback_draw :: "'f node list" where
  "fallback_draw =
     [Fog ''#666'' 10 25, AmbientLight 0.5, SpotLight [0, 5, 10] 1 True, Controls_render, PlaneGLTF]"

text \<open>Three frames, with a drag, in which the one load fails.\<close>

definition failing_frames :: "(pointer_input list \<times> nat shiba_event list) list" where
  "failing_frames =
     [([], [Render]),
      ([PointerDown, PointerMove 1 1], [Settle (LoadFailed AssetLoadError)]),
      ([PointerUp], [Render])]"


text \<open>A rig with a proper range of polar angles, to run beside the pinned one.\<close>

definition wide_rig :: CameraState where
  "wide_rig = \<lparr>polarAngle = 1 / 2, azimuthalAngle = 0, minPolarAngle = 0, maxPolarAngle = 1,
      autoRotate = False, autoRotateStep = 0, mode = Idle, dragPolar = 0, dragAzimuth = 0\<rparr>"


section \<open>Properties of the Box component\<close>

lemma Box_targets_hover_active:
  "color (Box_useSpring s) = (if hover s then ''red'' else ''gray'')"
  "scale (Box_useSpring s) = (if active s then [1.5, 1.5, 1.5] else [1, 1, 1])"
  by (simp_all add: Box_useSpring_def)

lemma hover_fold_filter:
  "hover s = hover s' \<Longrightarrow>
   hover (fold Box_handle evs s) = hover (fold Box_handle (filter is_hover_event evs) s')"
proof (induction evs arbitrary: s s')
  case Nil
  then show ?case by simp
next
  case (Cons e evs)
  show ?case
  proof (cases e)
    case Click
    have "hover (Box_handle Click s) = hover s'" using Cons.prems by simp
    from Cons.IH [OF this] show ?thesis using Click by (simp add: is_hover_event_def)
  next
    case PointerOver
    have "hover (Box_handle PointerOver s) = hover (Box_handle PointerOver s')" by simp
    from Cons.IH [OF this] show ?thesis using PointerOver by (simp add: is_hover_event_def)
  next
    case PointerOut
    have "hover (Box_handle PointerOut s) = hover (Box_handle PointerOut s')" by simp
    from Cons.IH [OF this] show ?thesis using PointerOut by (simp add: is_hover_event_def)
  qed
qed

lemma active_fold_filter:
  "active s = active s' \<Longrightarrow>
   active (fold Box_handle evs s) = active (fold Box_handle (filter is_click_event evs) s')"
proof (induction evs arbitrary: s s')
  case Nil
  then show ?case by simp
next
  case (Cons e evs)
  show ?case
  proof (cases e)
    case Click
    have "active (Box_handle Click s) = active (Box_handle Click s')" using Cons.prems by simp
    from Cons.IH [OF this] show ?thesis using Click by (simp add: is_click_event_def)
  next
    case PointerOver
    have "active (Box_handle PointerOver s) = active s'" using Cons.prems by simp
    from Cons.IH [OF this] show ?thesis using PointerOver by (simp add: is_click_event_def)
  next
    case PointerOut
    have "active (Box_handle PointerOut s) = active s'" using Cons.prems by simp
    from Cons.IH [OF this] show ?thesis using PointerOut by (simp add: is_click_event_def)
  qed
qed

lemma color_targets_filter:
  "hover s = hover s' \<Longrightarrow>
   color_targets fs s = color_targets (map (filter is_hover_event) fs) s'"
proof (induction fs arbitrary: s s')
  case Nil
  then show ?case by (simp add: color_targets_def)
next
  case (Cons evs fs)
  have h: "hover (fold Box_handle evs s) = hover (fold Box_handle (filter is_hover_event evs) s')"
    using Cons.prems by (rule hover_fold_filter)
  from Cons.IH [OF h] h show ?case
    by (simp add: color_targets_def Box_useSpring_def)
qed

lemma scale_targets_filter:
  "active s = active s' \<Longrightarrow>
   scale_targets fs s = scale_targets (map (filter is_click_event) fs) s'"
proof (induction fs arbitrary: s s')
  case Nil
  then show ?case by (simp add: scale_targets_def)
next
  case (Cons evs fs)
  have h: "active (fold Box_handle evs s) = active (fold Box_handle (filter is_click_event evs) s')"
    using Cons.prems by (rule active_fold_filter)
  from Cons.IH [OF h] h show ?case
    by (simp add: scale_targets_def Box_useSpring_def)
qed

text \<open>
  Claim C10. In the Box component the colour target depends on the hover flag alone and
  the scale target on the active flag alone. Two runs from the mounted state whose
  pointer-over/out histories agree frame by frame have the same colour target in every
  frame, whatever their clicks; two runs whose click histories agree frame by frame have
  the same scale target in every frame, whatever their hover events.
\<close>

theorem Box_targets_noninterference:
  "(map (filter is_hover_event) fs1 = map (filter is_hover_event) fs2 \<longrightarrow>
      color_targets fs1 Box_initial = color_targets fs2 Box_initial) \<and>
   (map (filter is_click_event) fs1 = map (filter is_click_event) fs2 \<longrightarrow>
      scale_targets fs1 Box_initial = scale_targets fs2 Box_initial)"
proof (intro conjI impI)
  assume eq: "map (filter is_hover_event) fs1 = map (filter is_hover_event) fs2"
  have "color_targets fs1 Box_initial = color_targets (map (filter is_hover_event) fs1) Box_initial"
    by (rule color_targets_filter) simp
  also have "\<dots> = color_targets (map (filter is_hover_event) fs2) Box_initial"
    using eq by simp
  also have "\<dots> = color_targets fs2 Box_initial"
    by (rule color_targets_filter [symmetric]) simp
  finally show "color_targets fs1 Box_initial = color_targets fs2 Box_initial" .
next
  assume eq: "map (filter is_click_event) fs1 = map (filter is_click_event) fs2"
  have "scale_targets fs1 Box_initial = scale_targets (map (filter is_click_event) fs1) Box_initial"
    by (rule scale_targets_filter) simp
  also have "\<dots> = scale_targets (map (filter is_click_event) fs2) Box_initial"
    using eq by simp
  also have "\<dots> = scale_targets fs2 Box_initial"
    by (rule scale_targets_filter [symmetric]) simp
  finally show "scale_targets fs1 Box_initial = scale_targets fs2 Box_initial" .
qed

theorem Box_targets_noninterference_witness:
  "color_targets [[PointerOver, Click], [Click, PointerOut]] Box_initial =
     color_targets [[PointerOver], [PointerOut, Click]] Box_initial \<and>
   color_targets [[PointerOver, Click], [Click, PointerOut]] Box_initial = [''red'', ''gray''] \<and>
   scale_targets [[PointerOver, Click], [Click, PointerOut]] Box_initial =
     scale_targets [[Click], [PointerOver, Click]] Box_initial \<and>
   scale_targets [[PointerOver, Click], [Click, PointerOut]] Box_initial =
     [[1.5, 1.5, 1.5], [1, 1, 1]]"
  using Box_targets_noninterference
          [of "[[PointerOver, Click], [Click, PointerOut]]" "[[PointerOver], [PointerOut, Click]]"]
        Box_targets_noninterference
          [of "[[PointerOver, Click], [Click, PointerOut]]" "[[Click], [PointerOver, Click]]"]
  by (simp add: is_hover_event_def is_click_event_def color_targets_def scale_targets_def
        Box_useSpring_def Box_initial_def)

section \<open>Properties of the ShibaGLTF component\<close>

lemma inv_initial: "ShibaGLTF_inv ShibaGLTF_initial"
  by (simp add: ShibaGLTF_inv_def ShibaGLTF_initial_def)

lemma inv_commit: "ShibaGLTF_inv s \<Longrightarrow> ShibaGLTF_inv (ShibaGLTF_commit s)"
  by (auto simp: ShibaGLTF_inv_def ShibaGLTF_commit_def effect_due_def ShibaGLTF_deps_def)

lemma inv_step: "ShibaGLTF_inv s \<Longrightarrow> ShibaGLTF_inv (ShibaGLTF_step e s)"
proof (cases e)
  case Render
  assume "ShibaGLTF_inv s"
  then show ?thesis using Render by (simp add: inv_commit)
next
  case (Settle out)
  assume "ShibaGLTF_inv s"
  then show ?thesis using Settle
    by (cases out)
       (auto simp: ShibaGLTF_inv_def GLTFLoader_settle_def ShibaGLTF_commit_def
          effect_due_def ShibaGLTF_deps_def)
qed

lemma inv_fold: "ShibaGLTF_inv s \<Longrightarrow> ShibaGLTF_inv (fold ShibaGLTF_step es s)"
  by (induction es arbitrary: s) (simp_all add: inv_step)

lemma inv_run: "ShibaGLTF_inv (ShibaGLTF_run es)"
  by (simp add: ShibaGLTF_run_def inv_fold inv_initial)

lemma resolved_step:
  "ShibaGLTF_inv s \<Longrightarrow> model s = Some g \<Longrightarrow> model (ShibaGLTF_step e s) = Some g"
proof (cases e)
  case Render
  assume "ShibaGLTF_inv s" "model s = Some g"
  then show ?thesis using Render
    by (auto simp: ShibaGLTF_inv_def ShibaGLTF_commit_def effect_due_def ShibaGLTF_deps_def)
next
  case (Settle out)
  assume "ShibaGLTF_inv s" "model s = Some g"
  then show ?thesis using Settle
    by (auto simp: ShibaGLTF_inv_def GLTFLoader_settle_def)
qed

lemma resolved_fold:
  "ShibaGLTF_inv s \<Longrightarrow> model s = Some g \<Longrightarrow> model (fold ShibaGLTF_step es s) = Some g"
  by (induction es arbitrary: s) (simp_all add: inv_step resolved_step)

lemma run_append: "ShibaGLTF_run (es @ es') = fold ShibaGLTF_step es' (ShibaGLTF_run es)"
  by (simp add: ShibaGLTF_run_def)

lemma failed_step_model: "model (ShibaGLTF_step (Settle (LoadFailed e)) s) = model s"
  by (simp add: GLTFLoader_settle_def)

lemma failed_step_same:
  "ShibaGLTF_step (Settle (LoadFailed e)) s = ShibaGLTF_step (Settle (LoadFailed e')) s"
  by (simp add: GLTFLoader_settle_def)

lemma requests_fold:
  "ShibaGLTF_inv s \<Longrightarrow>
   requests (fold ShibaGLTF_step es s) =
     (if committed_deps s = None \<and> Render \<notin> set es then [] else [''/scene.gltf''])"
proof (induction es arbitrary: s)
  case Nil
  then show ?case by (auto simp: ShibaGLTF_inv_def)
next
  case (Cons e es)
  have i: "ShibaGLTF_inv (ShibaGLTF_step e s)" using Cons.prems by (rule inv_step)
  show ?case
  proof (cases e)
    case Render
    have "committed_deps (ShibaGLTF_step e s) \<noteq> None"
      using Render by (simp add: ShibaGLTF_commit_def effect_due_def split: option.splits)
    then show ?thesis using Cons.IH [OF i] Render by simp
  next
    case (Settle out)
    have "committed_deps (ShibaGLTF_step e s) = committed_deps s"
      using Settle Cons.prems
      by (cases out) (auto simp: ShibaGLTF_inv_def GLTFLoader_settle_def ShibaGLTF_commit_def
          effect_due_def ShibaGLTF_deps_def)
    then show ?thesis using Cons.IH [OF i] Settle by simp
  qed
qed

lemma no_success_fold:
  "model s = None \<Longrightarrow> \<forall>g. Settle (Loaded g) \<notin> set es \<Longrightarrow> model (fold ShibaGLTF_step es s) = None"
proof (induction es arbitrary: s)
  case Nil
  then show ?case by simp
next
  case (Cons e es)
  have "model (ShibaGLTF_step e s) = None"
  proof (cases e)
    case Render
    then show ?thesis using Cons.prems(1) by (simp add: ShibaGLTF_commit_def)
  next
    case (Settle out)
    then show ?thesis using Cons.prems by (cases out) (auto simp: GLTFLoader_settle_def)
  qed
  then show ?case using Cons.IH Cons.prems(2) by simp
qed

lemma transitions_trace:
  "ShibaGLTF_inv s \<Longrightarrow>
   transitions (map model (s # ShibaGLTF_trace es s)) =
     (if model s = None \<and> model (fold ShibaGLTF_step es s) \<noteq> None then 1 else 0)"
proof (induction es arbitrary: s)
  case Nil
  show ?case by (cases "model s") simp_all
next
  case (Cons e es)
  have i: "ShibaGLTF_inv (ShibaGLTF_step e s)" using Cons.prems by (rule inv_step)
  show ?case
  proof (cases "model s")
    case None
    show ?thesis
    proof (cases "model (ShibaGLTF_step e s)")
      case None
      then show ?thesis using Cons.IH [OF i] \<open>model s = None\<close> by simp
    next
      case (Some g)
      have "model (fold ShibaGLTF_step es (ShibaGLTF_step e s)) = Some g"
        using i Some by (rule resolved_fold)
      then show ?thesis using Cons.IH [OF i] \<open>model s = None\<close> Some by simp
    qed
  next
    case (Some g)
    have "model (ShibaGLTF_step e s) = Some g" using Cons.prems Some by (rule resolved_step)
    then show ?thesis using Cons.IH [OF i] Some by simp
  qed
qed

lemma instances_run_proj:
  "fold instances_step es \<sigma> i = fold ShibaGLTF_step (map snd (filter (\<lambda>ie. fst ie = i) es)) (\<sigma> i)"
  by (induction es arbitrary: \<sigma>) (simp_all add: instances_step_def)


lemma view_cases:
  "ShibaGLTF_view None = None" "ShibaGLTF_view (Some g) = Some (Primitive (scene g))"
  by (simp_all add: ShibaGLTF_view_def)

text \<open>
  Claim C2. While the handle is unresolved the component renders nothing: it returns no
  node and the group holds the plane alone. Once the handle is resolved with \<open>g\<close>, in
  every later state the component returns the primitive node of \<open>scene g\<close>, and the
  group holds the plane and that node. The fragment passes through untouched: renaming
  the fragments before rendering or after it gives the same node.
\<close>

theorem ShibaGLTF_pending_then_fragment:
  "(model (ShibaGLTF_run es) = None \<longrightarrow>
      ShibaGLTF_render (ShibaGLTF_run es) = None \<and>
      App_group (ShibaGLTF_run es) = Group [PlaneGLTF]) \<and>
   (model (ShibaGLTF_run es) = Some g \<longrightarrow>
      ShibaGLTF_render (ShibaGLTF_run (es @ es')) = Some (Primitive (scene g)) \<and>
      App_group (ShibaGLTF_run (es @ es')) = Group [PlaneGLTF, Primitive (scene g)]) \<and>
   map_option (map_node f) (ShibaGLTF_view m) = ShibaGLTF_view (map_option (map_gltf f) m)"
proof (intro conjI impI)
  assume "model (ShibaGLTF_run es) = None"
  then show "ShibaGLTF_render (ShibaGLTF_run es) = None"
    by (simp add: ShibaGLTF_render_def view_cases)
  then show "App_group (ShibaGLTF_run es) = Group [PlaneGLTF]"
    by (simp add: App_group_def children_of_def)
next
  assume "model (ShibaGLTF_run es) = Some g"
  then have "model (ShibaGLTF_run (es @ es')) = Some g"
    unfolding run_append using inv_run by (rule resolved_fold [rotated])
  then show r: "ShibaGLTF_render (ShibaGLTF_run (es @ es')) = Some (Primitive (scene g))"
    by (simp add: ShibaGLTF_render_def view_cases)
  show "App_group (ShibaGLTF_run (es @ es')) = Group [PlaneGLTF, Primitive (scene g)]"
    using r by (simp add: App_group_def children_of_def)
next
  show "map_option (map_node f) (ShibaGLTF_view m) = ShibaGLTF_view (map_option (map_gltf f) m)"
    by (cases m) (simp_all add: view_cases gltf.map_sel)
qed

lemmas shiba_eval =
  ShibaGLTF_run_def ShibaGLTF_initial_def ShibaGLTF_commit_def effect_due_def ShibaGLTF_deps_def
  GLTFLoader_settle_def ShibaGLTF_render_def ShibaGLTF_view_def App_group_def children_of_def

theorem ShibaGLTF_pending_then_fragment_witness:
  "model (ShibaGLTF_run [Render :: nat shiba_event]) = None \<and>
   ShibaGLTF_render (ShibaGLTF_run [Render :: nat shiba_event]) = None \<and>
   App_group (ShibaGLTF_run [Render :: nat shiba_event]) = Group [PlaneGLTF] \<and>
   model (ShibaGLTF_run [Render, Settle (Loaded (GLTF (7::nat)))]) = Some (GLTF 7) \<and>
   ShibaGLTF_render (ShibaGLTF_run ([Render, Settle (Loaded (GLTF (7::nat)))]
       @ [Render, Settle (Loaded (GLTF 9)), Settle (LoadFailed AssetLoadError)]))
     = Some (Primitive 7) \<and>
   map_option (map_node Suc) (ShibaGLTF_view (Some (GLTF 7))) = ShibaGLTF_view (Some (GLTF 8))"
proof -
  have a: "model (ShibaGLTF_run [Render :: nat shiba_event]) = None"
    by (simp add: shiba_eval)
  have b: "model (ShibaGLTF_run [Render, Settle (Loaded (GLTF (7::nat)))]) = Some (GLTF 7)"
    by (simp add: shiba_eval)
  show ?thesis
    using a b
      ShibaGLTF_pending_then_fragment [of "[Render :: nat shiba_event]" "GLTF 7" "[]" Suc
        "Some (GLTF 7)"]
      ShibaGLTF_pending_then_fragment [of "[Render, Settle (Loaded (GLTF (7::nat)))]" "GLTF 7"
        "[Render, Settle (Loaded (GLTF 9)), Settle (LoadFailed AssetLoadError)]" "id :: nat \<Rightarrow> nat" "None :: nat gltf option"]
    by simp
qed

lemma return_view: "ShibaGLTF_return m = Inr (ShibaGLTF_view m)"
  by (cases m) (simp_all add: ShibaGLTF_return_def read_scene_def ShibaGLTF_view_def)

lemma App_render_scene: "App_render s = Inr (App_scene s)"
  by (simp add: App_render_def return_view App_scene_def App_group_def ShibaGLTF_render_def)

lemma App_frame_ok:
  "App_frame f st =
     Inr \<lparr>shiba = fold ShibaGLTF_step (snd f) (shiba st),
          camera = Controls_useFrame (fold rig_input (fst f) (camera st)),
          drawn = drawn st @ [draw_scene (App_scene (fold ShibaGLTF_step (snd f) (shiba st)))]\<rparr>"
  by (simp add: App_frame_def App_render_scene Let_def)

lemma scheduler_runs:
  "\<exists>st'. Frame_Scheduler fs st = Inr st' \<and> length (drawn st') = length (drawn st) + length fs"
proof (induction fs arbitrary: st)
  case Nil
  then show ?case by simp
next
  case (Cons f fs)
  obtain st1 where f1: "App_frame f st = Inr st1" and d1: "length (drawn st1) = Suc (length (drawn st))"
    by (simp add: App_frame_ok)
  from Cons.IH [of st1] obtain st' where
    "Frame_Scheduler fs st1 = Inr st'" "length (drawn st') = length (drawn st1) + length fs"
    by blast
  then show ?case using f1 d1 by simp
qed

lemma draw_pending:
  "model s = None \<Longrightarrow> draw_scene (App_scene s) = fallback_draw"
  by (simp add: draw_scene_def App_scene_def App_group_def ShibaGLTF_render_def
      ShibaGLTF_view_def children_of_def fallback_draw_def PlaneGLTF_def Controls_render_def)

lemma scheduler_fallback:
  "model (shiba st) = None \<Longrightarrow> \<forall>g. Settle (Loaded g) \<notin> set (concat (map snd fs)) \<Longrightarrow>
   \<exists>st'. Frame_Scheduler fs st = Inr st' \<and>
         drawn st' = drawn st @ replicate (length fs) fallback_draw"
proof (induction fs arbitrary: st)
  case Nil
  then show ?case by simp
next
  case (Cons f fs)
  let ?sh = "fold ShibaGLTF_step (snd f) (shiba st)"
  have m: "model ?sh = None"
    using Cons.prems by (intro no_success_fold) simp_all
  obtain st1 where f1: "App_frame f st = Inr st1" and s1: "shiba st1 = ?sh"
    and d1: "drawn st1 = drawn st @ [draw_scene (App_scene ?sh)]"
    by (simp add: App_frame_ok)
  have "model (shiba st1) = None" using m s1 by simp
  moreover have "\<forall>g. Settle (Loaded g) \<notin> set (concat (map snd fs))" using Cons.prems(2) by simp
  ultimately obtain st' where
    "Frame_Scheduler fs st1 = Inr st'" "drawn st' = drawn st1 @ replicate (length fs) fallback_draw"
    using Cons.IH [of st1] by blast
  then show ?case using f1 d1 m by (simp add: draw_pending replicate_append_same)
qed

lemma renders_only_in_flight:
  "ShibaGLTF_inv s \<Longrightarrow> \<forall>out. Settle out \<notin> set es \<Longrightarrow>
   in_flight (fold ShibaGLTF_step es s) =
     (if committed_deps s = None \<and> es \<noteq> [] then 1 else in_flight s)"
proof (induction es arbitrary: s)
  case Nil
  then show ?case by simp
next
  case (Cons e es)
  have e: "e = Render" using Cons.prems(2) by (cases e) auto
  have i: "ShibaGLTF_inv (ShibaGLTF_step e s)" using Cons.prems(1) by (rule inv_step)
  have r: "\<forall>out. Settle out \<notin> set es" using Cons.prems(2) by simp
  show ?case using Cons.IH [OF i r] e Cons.prems(1)
    by (auto simp: ShibaGLTF_inv_def ShibaGLTF_commit_def effect_due_def ShibaGLTF_deps_def)
qed

lemma success_resolves:
  "in_flight s \<noteq> 0 \<Longrightarrow> model (ShibaGLTF_step (Settle (Loaded h)) s) = Some h"
  by (simp add: GLTFLoader_settle_def ShibaGLTF_commit_def)

text \<open>
  Claim C3, as stated, fails: a failed load leaves no trace of the failure. After a
  network failure and after a parse failure the instance is in the same state, and its
  handle is the one of an instance whose load is still pending.
\<close>

theorem ShibaGLTF_failure_not_recorded:
  "(ShibaGLTF_run [Render, Settle (LoadFailed AssetLoadError)] :: nat ShibaGLTF_state) =
     ShibaGLTF_run [Render, Settle (LoadFailed AssetParseError)] \<and>
   model (ShibaGLTF_run [Render, Settle (LoadFailed AssetLoadError)] :: nat ShibaGLTF_state) =
     model (ShibaGLTF_run [Render] :: nat ShibaGLTF_state)"
  by (simp add: shiba_eval)

text \<open>
  Claim C3, amended. A failed load leaves the handle unresolved and records neither a
  failed state nor an error descriptor: the failure changes neither the \<open>model\<close> cell
  nor what is rendered, and which error it was makes no difference. The scene graph
  renders a defined fallback and does not crash: as long as no load has succeeded the
  component returns \<open>null\<close> without throwing, and the group holds the plane alone.
  No failure halts the frame scheduler: whatever the frames bring, every one of them is
  drawn, and while no load has succeeded each draws the scene without the subtree.
\<close>

theorem ShibaGLTF_failed_load_falls_back:
  "((\<forall>g. Settle (Loaded g) \<notin> set es) \<longrightarrow>
      model (ShibaGLTF_run es :: 'f ShibaGLTF_state) = None \<and>
      ShibaGLTF_return (model (ShibaGLTF_run es)) = Inr None \<and>
      ShibaGLTF_render (ShibaGLTF_run es) = None \<and>
      App_group (ShibaGLTF_run es) = Group [PlaneGLTF]) \<and>
   model (ShibaGLTF_step (Settle (LoadFailed e)) (s :: 'f ShibaGLTF_state)) = model s \<and>
   ShibaGLTF_render (ShibaGLTF_step (Settle (LoadFailed e)) s) = ShibaGLTF_render s \<and>
   ShibaGLTF_step (Settle (LoadFailed e)) s = ShibaGLTF_step (Settle (LoadFailed e')) s \<and>
   (\<exists>st'. Frame_Scheduler fs (st :: 'f App_state) = Inr st' \<and>
          length (drawn st') = length (drawn st) + length fs) \<and>
   (model (shiba st) = None \<and> (\<forall>g. Settle (Loaded g) \<notin> set (concat (map snd fs))) \<longrightarrow>
      (\<exists>st'. Frame_Scheduler fs st = Inr st' \<and>
             drawn st' = drawn st @ replicate (length fs) fallback_draw))"
proof (intro conjI impI)
  assume "\<forall>g. Settle (Loaded g) \<notin> set es"
  then show m: "model (ShibaGLTF_run es :: 'f ShibaGLTF_state) = None"
    unfolding ShibaGLTF_run_def
    by (intro no_success_fold) (simp_all add: ShibaGLTF_initial_def)
  then show "ShibaGLTF_return (model (ShibaGLTF_run es :: 'f ShibaGLTF_state)) = Inr None"
    by (simp add: ShibaGLTF_return_def)
  from m show r: "ShibaGLTF_render (ShibaGLTF_run es :: 'f ShibaGLTF_state) = None"
    by (simp add: ShibaGLTF_render_def view_cases)
  then show "App_group (ShibaGLTF_run es :: 'f ShibaGLTF_state) = Group [PlaneGLTF]"
    by (simp add: App_group_def children_of_def)
next
  show "model (ShibaGLTF_step (Settle (LoadFailed e)) s) = model s"
    by (rule failed_step_model)
  then show "ShibaGLTF_render (ShibaGLTF_step (Settle (LoadFailed e)) s) = ShibaGLTF_render s"
    by (simp add: ShibaGLTF_render_def)
  show "ShibaGLTF_step (Settle (LoadFailed e)) s = ShibaGLTF_step (Settle (LoadFailed e')) s"
    by (rule failed_step_same)
  show "\<exists>st'. Frame_Scheduler fs st = Inr st' \<and>
          length (drawn st') = length (drawn st) + length fs"
    by (rule scheduler_runs)
next
  assume "model (shiba st) = None \<and> (\<forall>g. Settle (Loaded g) \<notin> set (concat (map snd fs)))"
  then show "\<exists>st'. Frame_Scheduler fs st = Inr st' \<and>
             drawn st' = drawn st @ replicate (length fs) fallback_draw"
    using scheduler_fallback by blast
qed

theorem ShibaGLTF_failed_load_falls_back_witness:
  "(\<forall>g. Settle (Loaded g) \<notin> set [Render, Settle (LoadFailed AssetParseError), Render :: nat shiba_event]) \<and>
   model (ShibaGLTF_run [Render, Settle (LoadFailed AssetParseError), Render :: nat shiba_event]) = None \<and>
   ShibaGLTF_return
     (model (ShibaGLTF_run [Render, Settle (LoadFailed AssetParseError), Render :: nat shiba_event]))
     = Inr None \<and>
   App_group (ShibaGLTF_run [Render, Settle (LoadFailed AssetParseError), Render :: nat shiba_event])
     = Group [PlaneGLTF] \<and>
   model (shiba (App_initial (Controls_rig (pi / 2) 0 (1 / 100)) :: nat App_state)) = None \<and>
   (\<forall>g. Settle (Loaded g) \<notin> set (concat (map snd failing_frames))) \<and>
   (\<exists>st'. Frame_Scheduler failing_frames (App_initial (Controls_rig (pi / 2) 0 (1 / 100))) = Inr st' \<and>
          drawn st' = [fallback_draw, fallback_draw, fallback_draw])"
proof -
  have h: "\<forall>g. Settle (Loaded g) \<notin> set [Render, Settle (LoadFailed AssetParseError), Render :: nat shiba_event]"
    by simp
  have m: "model (shiba (App_initial (Controls_rig (pi / 2) 0 (1 / 100)) :: nat App_state)) = None"
    by (simp add: App_initial_def ShibaGLTF_initial_def)
  have n: "\<forall>g. Settle (Loaded g) \<notin> set (concat (map snd failing_frames))"
    by (simp add: failing_frames_def)
  have l: "length failing_frames = 3" by (simp add: failing_frames_def)
  have d: "drawn (App_initial (Controls_rig (pi / 2) 0 (1 / 100)) :: nat App_state) = []"
    by (simp add: App_initial_def)
  have r: "replicate 3 (fallback_draw :: nat node list) = [fallback_draw, fallback_draw, fallback_draw]"
    by (simp add: numeral_3_eq_3)
  from ShibaGLTF_failed_load_falls_back
      [of "[Render, Settle (LoadFailed AssetParseError), Render :: nat shiba_event]"
        AssetLoadError "ShibaGLTF_initial :: nat ShibaGLTF_state" AssetParseError failing_frames
        "App_initial (Controls_rig (pi / 2) 0 (1 / 100))"]
  show ?thesis using h m n l d r by (simp add: ShibaGLTF_return_def)
qed

text \<open>
  Claim C5, as stated, fails: after a load that was issued and has settled with a
  failure, the handle has made no transition at all.
\<close>

theorem ShibaGLTF_failed_load_stays_pending:
  "requests (ShibaGLTF_run [Render, Settle (LoadFailed AssetParseError)] :: nat ShibaGLTF_state)
     = [''/scene.gltf''] \<and>
   in_flight (ShibaGLTF_run [Render, Settle (LoadFailed AssetParseError)] :: nat ShibaGLTF_state) = 0 \<and>
   transitions (map model ((ShibaGLTF_initial :: nat ShibaGLTF_state)
      # ShibaGLTF_trace [Render, Settle (LoadFailed AssetParseError)] ShibaGLTF_initial)) = 0"
  by (simp add: shiba_eval)

text \<open>
  Claim C5, amended. The handle starts unresolved. When the load succeeds, that is when
  a success is delivered while the request is in flight, the handle becomes resolved
  with the loaded value, and over the whole run it has made exactly one transition; it
  keeps that value in every later state. A request is in flight once the instance has
  rendered and nothing has settled. When the load fails the handle makes no transition:
  it leaves the unresolved state only through a success, and there is no failed state.
\<close>

theorem ShibaGLTF_handle_resolves_once:
  "model (ShibaGLTF_initial :: 'f ShibaGLTF_state) = None \<and>
   transitions (map model (ShibaGLTF_initial # ShibaGLTF_trace es ShibaGLTF_initial)) =
     (if model (ShibaGLTF_run es :: 'f ShibaGLTF_state) = None then 0 else 1) \<and>
   (model (ShibaGLTF_run es) = Some g \<longrightarrow> model (ShibaGLTF_run (es @ es')) = Some g) \<and>
   (model (ShibaGLTF_run es) \<noteq> None \<longrightarrow> (\<exists>g. Settle (Loaded g) \<in> set es)) \<and>
   (in_flight (ShibaGLTF_run es) \<noteq> 0 \<longrightarrow>
      model (ShibaGLTF_run (es @ Settle (Loaded h) # es')) = Some h \<and>
      transitions (map model (ShibaGLTF_initial
        # ShibaGLTF_trace (es @ Settle (Loaded h) # es') ShibaGLTF_initial)) = 1) \<and>
   (Render \<in> set es \<and> (\<forall>out. Settle out \<notin> set es) \<longrightarrow>
      in_flight (ShibaGLTF_run es) = 1 \<and>
      model (ShibaGLTF_run es) = None \<and>
      model (ShibaGLTF_run (es @ Settle (Loaded h) # es')) = Some h)"
proof -
  have tr: "transitions (map model (ShibaGLTF_initial # ShibaGLTF_trace xs ShibaGLTF_initial)) =
     (if model (ShibaGLTF_run xs :: 'f ShibaGLTF_state) = None then 0 else 1)" for xs
    using transitions_trace [OF inv_initial, of xs]
    by (simp add: ShibaGLTF_run_def ShibaGLTF_initial_def)
  have stable: "model (ShibaGLTF_run (xs @ ys)) = Some k"
    if "model (ShibaGLTF_run xs :: 'f ShibaGLTF_state) = Some k" for xs ys k
    using that unfolding run_append using inv_run by (rule resolved_fold [rotated])
  have succ: "model (ShibaGLTF_run (es @ Settle (Loaded h) # es')) = Some h"
    if "in_flight (ShibaGLTF_run es :: 'f ShibaGLTF_state) \<noteq> 0"
  proof -
    have "model (ShibaGLTF_run (es @ [Settle (Loaded h)])) = Some h"
      using success_resolves [OF that, of h]
      by (simp add: run_append del: ShibaGLTF_step.simps)
    from stable [OF this, of es'] show ?thesis by simp
  qed
  have c1: "model (ShibaGLTF_initial :: 'f ShibaGLTF_state) = None"
    by (simp add: ShibaGLTF_initial_def)
  have c4: "\<exists>g. Settle (Loaded g) \<in> set es"
    if a: "model (ShibaGLTF_run es :: 'f ShibaGLTF_state) \<noteq> None"
  proof (rule ccontr)
    assume "\<not> (\<exists>g. Settle (Loaded g) \<in> set es)"
    then have "\<forall>g. Settle (Loaded g) \<notin> set es" by simp
    then have "model (ShibaGLTF_run es :: 'f ShibaGLTF_state) = None"
      unfolding ShibaGLTF_run_def
      by (intro no_success_fold) (simp_all add: ShibaGLTF_initial_def)
    with a show False by simp
  qed
  have c6: "in_flight (ShibaGLTF_run es :: 'f ShibaGLTF_state) = 1 \<and> model (ShibaGLTF_run es) = None"
    if b: "Render \<in> set es \<and> (\<forall>out. Settle out \<notin> set es)"
  proof -
    from b have ne: "es \<noteq> []" by auto
    have "in_flight (ShibaGLTF_run es :: 'f ShibaGLTF_state) = 1"
      using renders_only_in_flight [OF inv_initial, of es] b ne
      by (simp add: ShibaGLTF_run_def ShibaGLTF_initial_def)
    moreover have "model (ShibaGLTF_run es :: 'f ShibaGLTF_state) = None"
      using c4 b by blast
    ultimately show ?thesis by simp
  qed
  show ?thesis
    using c1 tr [of es] stable [of es g es'] c4 succ tr [of "es @ Settle (Loaded h) # es'"] c6
    by simp
qed

theorem ShibaGLTF_handle_resolves_once_witness:
  "model (ShibaGLTF_run [Render, Settle (Loaded (GLTF (7::nat)))]) = Some (GLTF 7) \<and>
   model (ShibaGLTF_run ([Render, Settle (Loaded (GLTF (7::nat)))]
      @ [Settle (Loaded (GLTF 9)), Render, Settle (LoadFailed AssetLoadError)])) = Some (GLTF 7) \<and>
   transitions (map model (ShibaGLTF_initial
      # ShibaGLTF_trace [Render, Settle (Loaded (GLTF (7::nat)))] ShibaGLTF_initial)) = 1 \<and>
   (\<exists>g. Settle (Loaded g) \<in> set [Render, Settle (Loaded (GLTF (7::nat)))]) \<and>
   Render \<in> set [Render, Render :: nat shiba_event] \<and>
   (\<forall>out. Settle out \<notin> set [Render, Render :: nat shiba_event]) \<and>
   in_flight (ShibaGLTF_run [Render, Render :: nat shiba_event]) = 1 \<and>
   model (ShibaGLTF_run ([Render, Render] @ Settle (Loaded (GLTF (5::nat)))
      # [Settle (Loaded (GLTF 9)), Render, Settle (LoadFailed AssetLoadError)])) = Some (GLTF 5) \<and>
   transitions (map model (ShibaGLTF_initial
      # ShibaGLTF_trace ([Render, Render] @ Settle (Loaded (GLTF (5::nat)))
          # [Settle (Loaded (GLTF 9)), Render, Settle (LoadFailed AssetLoadError)])
        ShibaGLTF_initial)) = 1"
proof -
  have b: "model (ShibaGLTF_run [Render, Settle (Loaded (GLTF (7::nat)))]) = Some (GLTF 7)"
    by (simp add: shiba_eval)
  have c: "Render \<in> set [Render, Render :: nat shiba_event] \<and>
      (\<forall>out. Settle out \<notin> set [Render, Render :: nat shiba_event])"
    by simp
  have d: "in_flight (ShibaGLTF_run [Render, Render :: nat shiba_event]) \<noteq> 0"
    by (simp add: shiba_eval)
  from ShibaGLTF_handle_resolves_once [of "[Render, Settle (Loaded (GLTF (7::nat)))]"
        "GLTF 7" "[Settle (Loaded (GLTF 9)), Render, Settle (LoadFailed AssetLoadError)]" "GLTF 5"]
    ShibaGLTF_handle_resolves_once [of "[Render, Render :: nat shiba_event]"
        "GLTF 7" "[Settle (Loaded (GLTF 9)), Render, Settle (LoadFailed AssetLoadError)]" "GLTF 5"]
  show ?thesis using b c d by (simp add: shiba_eval)
qed

text \<open>
  Claim C9. An instance that has rendered has issued exactly one load, of
  \<open>/scene.gltf\<close>, whatever renders and state updates followed; one that has not
  rendered has issued none. Among several instances each one that has rendered has its
  own single request, whatever the others did.
\<close>

theorem ShibaGLTF_load_issued_once:
  "requests (ShibaGLTF_run es) = (if Render \<in> set es then [''/scene.gltf''] else []) \<and>
   requests (instances_run ies i) = (if (i, Render) \<in> set ies then [''/scene.gltf''] else [])"
proof
  show "requests (ShibaGLTF_run es) = (if Render \<in> set es then [''/scene.gltf''] else [])"
    using requests_fold [OF inv_initial, of es]
    by (simp add: ShibaGLTF_run_def ShibaGLTF_initial_def)
  have "(Render \<in> set (map snd (filter (\<lambda>ie. fst ie = i) ies))) = ((i, Render) \<in> set ies)"
    by force
  then show "requests (instances_run ies i) =
      (if (i, Render) \<in> set ies then [''/scene.gltf''] else [])"
    using requests_fold [OF inv_initial, of "map snd (filter (\<lambda>ie. fst ie = i) ies)"]
    by (simp add: instances_run_def instances_run_proj ShibaGLTF_initial_def)
qed

theorem ShibaGLTF_load_issued_once_witness:
  "requests (ShibaGLTF_run [Render, Render, Settle (Loaded (GLTF (7::nat))), Render])
     = [''/scene.gltf''] \<and>
   requests (ShibaGLTF_run [Settle (Loaded (GLTF (7::nat)))]) = [] \<and>
   requests (instances_run [(0, Render), (1, Render), (0, Settle (Loaded (GLTF (7::nat)))), (0, Render)] 0)
     = [''/scene.gltf''] \<and>
   requests (instances_run [(0, Render), (1, Render), (0, Settle (Loaded (GLTF (7::nat)))), (0, Render)] 1)
     = [''/scene.gltf''] \<and>
   requests (instances_run [(0, Render), (1, Render), (0, Settle (Loaded (GLTF (7::nat)))), (0, Render)] 2)
     = []"
  using ShibaGLTF_load_issued_once [of "[Render, Render, Settle (Loaded (GLTF (7::nat))), Render]"
          "[(0, Render), (1, Render), (0, Settle (Loaded (GLTF (7::nat)))), (0, Render)]" 0]
        ShibaGLTF_load_issued_once [of "[Settle (Loaded (GLTF (7::nat)))]"
          "[(0, Render), (1, Render), (0, Settle (Loaded (GLTF (7::nat)))), (0, Render)]" 1]
        ShibaGLTF_load_issued_once [of "[] :: nat shiba_event list"
          "[(0, Render), (1, Render), (0, Settle (Loaded (GLTF (7::nat)))), (0, Render)]" 2]
  by simp

section \<open>Properties of the camera rig\<close>

lemma clamp_angle_range:
  "lo \<le> hi \<Longrightarrow> lo \<le> clamp_angle lo hi x \<and> clamp_angle lo hi x \<le> hi"
  by (simp add: clamp_angle_def)

lemma rig_input_limits:
  "minPolarAngle (rig_input i c) = minPolarAngle c \<and>
   maxPolarAngle (rig_input i c) = maxPolarAngle c"
  by (cases i) simp_all

lemma fold_rig_input_limits:
  "minPolarAngle (fold rig_input ins c) = minPolarAngle c \<and>
   maxPolarAngle (fold rig_input ins c) = maxPolarAngle c"
  by (induction ins arbitrary: c) (simp_all add: rig_input_limits)

lemma frame_limits:
  "minPolarAngle (Controls_useFrame (fold rig_input ins c)) = minPolarAngle c \<and>
   maxPolarAngle (Controls_useFrame (fold rig_input ins c)) = maxPolarAngle c"
  by (simp add: Controls_useFrame_def tick_def fold_rig_input_limits)

lemma frame_polar:
  "polarAngle (Controls_useFrame (fold rig_input ins c)) =
     clamp_angle (minPolarAngle c) (maxPolarAngle c)
       (polarAngle (fold rig_input ins c) + dragPolar (fold rig_input ins c))"
  by (simp add: Controls_useFrame_def tick_def fold_rig_input_limits)

lemma frames_in_range:
  "minPolarAngle c \<le> maxPolarAngle c \<Longrightarrow> s \<in> set (Controls_frames fs c) \<Longrightarrow>
   minPolarAngle c \<le> polarAngle s \<and> polarAngle s \<le> maxPolarAngle c"
proof (induction fs arbitrary: c)
  case Nil
  then show ?case by simp
next
  case (Cons ins fs)
  let ?c' = "Controls_useFrame (fold rig_input ins c)"
  from Cons.prems(2) have "s = ?c' \<or> s \<in> set (Controls_frames fs ?c')" by simp
  then show ?case
  proof
    assume "s = ?c'"
    then show ?thesis using clamp_angle_range [OF Cons.prems(1)] by (simp add: frame_polar)
  next
    assume m: "s \<in> set (Controls_frames fs ?c')"
    have "minPolarAngle ?c' \<le> maxPolarAngle ?c'" using Cons.prems(1) by (simp add: frame_limits)
    from Cons.IH [OF this m] show ?thesis by (simp add: frame_limits)
  qed
qed

text \<open>
  Claim C1. With the limits of the Controls component, both \<open>pi / 3\<close>, the polar
  angle after every frame is exactly \<open>pi / 3\<close>, whatever was dragged. For any rig
  whose limits form a range, the polar angle after every frame lies within the limits,
  however far one frame's drag would have driven it.
\<close>

theorem Controls_polar_angle_clamped:
  "(\<forall>s \<in> set (Controls_frames fs (Controls_rig polar0 azimuth0 step)). polarAngle s = pi / 3) \<and>
   (minPolarAngle c \<le> maxPolarAngle c \<longrightarrow>
      (\<forall>s \<in> set (Controls_frames fs' c).
         minPolarAngle c \<le> polarAngle s \<and> polarAngle s \<le> maxPolarAngle c))"
proof (intro conjI impI ballI)
  fix s assume "s \<in> set (Controls_frames fs (Controls_rig polar0 azimuth0 step))"
  then have "pi / 3 \<le> polarAngle s \<and> polarAngle s \<le> pi / 3"
    using frames_in_range [of "Controls_rig polar0 azimuth0 step" s fs]
    by (simp add: Controls_rig_def)
  then show "polarAngle s = pi / 3" by simp
next
  fix s assume "minPolarAngle c \<le> maxPolarAngle c" "s \<in> set (Controls_frames fs' c)"
  then show "minPolarAngle c \<le> polarAngle s" "polarAngle s \<le> maxPolarAngle c"
    using frames_in_range by blast+
qed

theorem Controls_polar_angle_clamped_witness:
  "map polarAngle (Controls_frames [[PointerDown, PointerMove 0 100], [PointerMove 2 (- 300), PointerUp], []]
      (Controls_rig (pi / 2) 0 (1 / 100))) = [pi / 3, pi / 3, pi / 3] \<and>
   minPolarAngle wide_rig \<le> maxPolarAngle wide_rig \<and>
   map polarAngle (Controls_frames [[PointerDown, PointerMove 0 100], [PointerMove 2 (- 300), PointerUp], []]
      wide_rig) = [1, 0, 0] \<and>
   list_all (\<lambda>s. pi / 3 \<le> polarAngle s \<and> polarAngle s \<le> pi / 3)
     (Controls_frames [[PointerDown, PointerMove 0 100], [PointerMove 2 (- 300), PointerUp], []]
        (Controls_rig (pi / 2) 0 (1 / 100)))"
proof -
  have h: "minPolarAngle wide_rig \<le> maxPolarAngle wide_rig" by (simp add: wide_rig_def)
  have a: "map polarAngle (Controls_frames [[PointerDown, PointerMove 0 100], [PointerMove 2 (- 300), PointerUp], []]
      wide_rig) = [1, 0, 0]"
    by (simp add: wide_rig_def Controls_useFrame_def tick_def clamp_angle_def)
  show ?thesis
    using h a
      Controls_polar_angle_clamped [of "[[PointerDown, PointerMove 0 100], [PointerMove 2 (- 300), PointerUp], []]"
        "pi / 2" 0 "1 / 100" wide_rig
        "[[PointerDown, PointerMove 0 100], [PointerMove 2 (- 300), PointerUp], []]"]
    by (simp add: list_all_iff wide_rig_def Controls_useFrame_def tick_def clamp_angle_def
          Controls_rig_def)
qed




section \<open>Properties of the scene tree and the draw step\<close>

lemmas scene_eval =
  App_scene_def App_scene_box_def App_group_def Plane_def PlaneGLTF_def Box_render_def
  Controls_render_def children_of_def draw_scene_def shadow_map_pass_def drawn_shadowed_def

text \<open>
  Claim C8. The shadow flags the tree declares are the ones the draw step reads: the
  nodes drawn are the declared nodes themselves. A node that does not cast is in no
  shadow-map pass, and a node that does not receive is not drawn shadowed, whatever the
  occluders. The planes declare \<open>receiveShadow\<close> and not \<open>castShadow\<close>; the box and
  the spot light declare \<open>castShadow\<close>. So the shadow-map pass of the scene with the
  box holds the spot light and the box, and that of the scene whose asset is still
  pending holds the spot light alone.
\<close>

theorem shadow_flags_reach_draw_step:
  "(\<not> casts fc (n :: 'f node) \<longrightarrow> n \<notin> set (shadow_map_pass fc ns)) \<and>
   (\<not> receives fr n \<longrightarrow> \<not> drawn_shadowed fr fc n occluders) \<and>
   draw_scene (App_scene_box sc col) =
     [Fog ''#666'' 10 25, AmbientLight 0.5, SpotLight [0, 5, 10] 1 True, Controls_render,
      Plane, Box_render sc col :: 'f node] \<and>
   draw_scene (App_scene s) =
     [Fog ''#666'' 10 25, AmbientLight 0.5, SpotLight [0, 5, 10] 1 True, Controls_render,
      PlaneGLTF] @ children_of (ShibaGLTF_render s) \<and>
   receives fr Plane \<and> receives fr PlaneGLTF \<and> \<not> casts fc Plane \<and> \<not> casts fc PlaneGLTF \<and>
   casts fc (Box_render sc col) \<and> \<not> receives fr (Box_render sc col) \<and>
   casts fc (SpotLight [0, 5, 10] 1 True) \<and>
   shadow_map_pass fc (App_scene_box sc col) = [SpotLight [0, 5, 10] 1 True, Box_render sc col] \<and>
   (model s = None \<longrightarrow> shadow_map_pass fc (App_scene s) = [SpotLight [0, 5, 10] 1 True])"
proof (intro conjI impI)
  assume "\<not> casts fc n"
  then show "n \<notin> set (shadow_map_pass fc ns)" by (simp add: shadow_map_pass_def)
next
  assume "\<not> receives fr n"
  then show "\<not> drawn_shadowed fr fc n occluders" by (simp add: drawn_shadowed_def)
next
  show "draw_scene (App_scene_box sc col) =
     [Fog ''#666'' 10 25, AmbientLight 0.5, SpotLight [0, 5, 10] 1 True, Controls_render,
      Plane, Box_render sc col :: 'f node]"
    by (simp add: scene_eval)
  show "draw_scene (App_scene s) =
     [Fog ''#666'' 10 25, AmbientLight 0.5, SpotLight [0, 5, 10] 1 True, Controls_render,
      PlaneGLTF] @ children_of (ShibaGLTF_render s)"
    by (cases "model s") (simp_all add: scene_eval ShibaGLTF_render_def ShibaGLTF_view_def)
  show "receives fr Plane" by (simp add: Plane_def)
  show "receives fr PlaneGLTF" by (simp add: PlaneGLTF_def)
  show "\<not> casts fc Plane" by (simp add: Plane_def)
  show "\<not> casts fc PlaneGLTF" by (simp add: PlaneGLTF_def)
  show "casts fc (Box_render sc col)" by (simp add: Box_render_def)
  show "\<not> receives fr (Box_render sc col)" by (simp add: Box_render_def)
  show "casts fc (SpotLight [0, 5, 10] 1 True)" by simp
  show "shadow_map_pass fc (App_scene_box sc col) = [SpotLight [0, 5, 10] 1 True, Box_render sc col]"
    by (simp add: scene_eval)
next
  assume "model s = None"
  then show "shadow_map_pass fc (App_scene s) = [SpotLight [0, 5, 10] 1 True]"
    by (simp add: scene_eval ShibaGLTF_render_def ShibaGLTF_view_def)
qed

theorem shadow_flags_reach_draw_step_witness:
  "\<not> casts (\<lambda>f :: nat. True) Plane \<and>
   (Plane :: nat node) \<notin> set (shadow_map_pass (\<lambda>f. True) (App_scene_box [1, 1, 1] ''gray'')) \<and>
   \<not> receives (\<lambda>f :: nat. True) (Box_render [1, 1, 1] ''gray'') \<and>
   \<not> drawn_shadowed (\<lambda>f :: nat. True) (\<lambda>f. True) (Box_render [1, 1, 1] ''gray'')
       [SpotLight [0, 5, 10] 1 True, Primitive 3] \<and>
   drawn_shadowed (\<lambda>f :: nat. True) (\<lambda>f. True) Plane [Box_render [1, 1, 1] ''gray''] \<and>
   model (ShibaGLTF_initial :: nat ShibaGLTF_state) = None \<and>
   shadow_map_pass (\<lambda>f :: nat. True) (App_scene ShibaGLTF_initial) = [SpotLight [0, 5, 10] 1 True]"
proof -
  have a: "\<not> casts (\<lambda>f :: nat. True) Plane" by (simp add: Plane_def)
  have b: "\<not> receives (\<lambda>f :: nat. True) (Box_render [1, 1, 1] ''gray'')"
    by (simp add: Box_render_def)
  have c: "model (ShibaGLTF_initial :: nat ShibaGLTF_state) = None"
    by (simp add: ShibaGLTF_initial_def)
  have d: "drawn_shadowed (\<lambda>f :: nat. True) (\<lambda>f. True) Plane [Box_render [1, 1, 1] ''gray'']"
    by (simp add: drawn_shadowed_def Plane_def Box_render_def)
  show ?thesis
    using a b c d
      shadow_flags_reach_draw_step [of "\<lambda>f :: nat. True" Plane "App_scene_box [1, 1, 1] ''gray''"
        "\<lambda>f :: nat. True" "[SpotLight [0, 5, 10] 1 True, Primitive 3]" "[1, 1, 1]" "''gray''"
        "ShibaGLTF_initial :: nat ShibaGLTF_state"]
      shadow_flags_reach_draw_step [of "\<lambda>f :: nat. True" "Box_render [1, 1, 1] ''gray'' :: nat node"
        "App_scene_box [1, 1, 1] ''gray''"
        "\<lambda>f :: nat. True" "[SpotLight [0, 5, 10] 1 True, Primitive 3]" "[1, 1, 1]" "''gray''"
        "ShibaGLTF_initial :: nat ShibaGLTF_state"]
    by simp
qed

end
